theory Spec2Isabelle
  imports Complex_Main
begin

section \<open>Go strings and the library functions the client calls\<close>

text \<open>
  A Go string is a sequence of bytes, here a \<open>string\<close> (a list of \<open>char\<close>, one per byte).
  The functions of this section are the ones of Go's \<open>strings\<close> package that
  \<open>collector/client.go\<close> calls, written after their documented behaviour. Every separator
  the client passes is a single byte, so the separator is a \<open>char\<close>.
\<close>

text \<open>\<open>strings.Index(s, sep)\<close>: the index of the first \<open>sep\<close> in \<open>s\<close>, or -1.\<close>

definition Index :: "string \<Rightarrow> char \<Rightarrow> int" where
  "Index s sep = (if sep \<in> set s then int (length (takeWhile (\<lambda>c. c \<noteq> sep) s)) else - 1)"

text \<open>\<open>strings.HasSuffix(s, suffix)\<close>.\<close>

definition HasSuffix :: "string \<Rightarrow> string \<Rightarrow> bool" where
  "HasSuffix s suf = (length suf \<le> length s \<and> drop (length s - length suf) s = suf)"

text \<open>
  \<open>strings.TrimSpace(s)\<close> removes all leading and all trailing white space, as Unicode
  defines it. The six ASCII white-space bytes are tab, line feed, vertical tab, form feed,
  carriage return and space. The other white-space code points are U+0085, U+00A0, U+1680,
  U+2000 to U+200A, U+2028, U+2029, U+202F, U+205F and U+3000; \<open>unicodeSpace\<close> lists their
  UTF-8 encodings. A byte sequence that is not one of these decodes to a code point that is
  not white space (an invalid sequence decodes to U+FFFD), so trimming stops there.
\<close>

definition asciiSpace :: "char \<Rightarrow> bool" where
  "asciiSpace c = (c \<in> {CHR 0x09, CHR 0x0A, CHR 0x0B, CHR 0x0C, CHR 0x0D, CHR 0x20})"

definition unicodeSpace :: "string list" where
  "unicodeSpace =
    [[CHR 0xC2, CHR 0x85], [CHR 0xC2, CHR 0xA0], [CHR 0xE1, CHR 0x9A, CHR 0x80],
     [CHR 0xE2, CHR 0x80, CHR 0x80], [CHR 0xE2, CHR 0x80, CHR 0x81],
     [CHR 0xE2, CHR 0x80, CHR 0x82], [CHR 0xE2, CHR 0x80, CHR 0x83],
     [CHR 0xE2, CHR 0x80, CHR 0x84], [CHR 0xE2, CHR 0x80, CHR 0x85],
     [CHR 0xE2, CHR 0x80, CHR 0x86], [CHR 0xE2, CHR 0x80, CHR 0x87],
     [CHR 0xE2, CHR 0x80, CHR 0x88], [CHR 0xE2, CHR 0x80, CHR 0x89],
     [CHR 0xE2, CHR 0x80, CHR 0x8A], [CHR 0xE2, CHR 0x80, CHR 0xA8],
     [CHR 0xE2, CHR 0x80, CHR 0xA9], [CHR 0xE2, CHR 0x80, CHR 0xAF],
     [CHR 0xE2, CHR 0x81, CHR 0x9F], [CHR 0xE3, CHR 0x80, CHR 0x80]]"

text \<open>
  The number of bytes of the white-space code point at the head of \<open>s\<close>, 0 when \<open>s\<close> does
  not start with one. \<open>encs\<close> is \<open>unicodeSpace\<close> when trimming on the left and its
  byte-reversed image when trimming on the right (on the reversed string).
\<close>

definition spaceWidth :: "string list \<Rightarrow> string \<Rightarrow> nat" where
  "spaceWidth encs s =
    (case s of
       [] \<Rightarrow> 0
     | c # _ \<Rightarrow>
         if asciiSpace c then 1
         else (case find (\<lambda>e. take (length e) s = e) encs of
                 Some e \<Rightarrow> length e
               | None \<Rightarrow> 0))"

function trimLeft :: "string list \<Rightarrow> string \<Rightarrow> string" where
  "trimLeft encs s =
    (if spaceWidth encs s = 0 then s else trimLeft encs (drop (spaceWidth encs s) s))"
  by pat_completeness auto
termination
proof (relation "measure (\<lambda>(encs, s). length s)")
  show "wf (measure (\<lambda>(encs, s). length s))" by simp
next
  fix encs :: "string list" and s :: string
  assume "spaceWidth encs s \<noteq> 0"
  then have "s \<noteq> []" by (auto simp: spaceWidth_def)
  with \<open>spaceWidth encs s \<noteq> 0\<close>
  show "((encs, drop (spaceWidth encs s) s), (encs, s)) \<in> measure (\<lambda>(encs, s). length s)"
    by simp
qed

declare trimLeft.simps [simp del]

definition TrimSpace :: "string \<Rightarrow> string" where
  "TrimSpace s = rev (trimLeft (map rev unicodeSpace) (rev (trimLeft unicodeSpace s)))"

text \<open>
  \<open>strings.Split(s, sep)\<close>: the substrings between the separators. The result is never
  empty: a string without the separator (the empty string too) gives the one-element list
  holding the string itself.
\<close>

fun Split :: "string \<Rightarrow> char \<Rightarrow> string list" where
  "Split [] sep = [[]]"
| "Split (c # cs) sep =
    (if c = sep then [] # Split cs sep
     else (case Split cs sep of [] \<Rightarrow> [[c]] | w # ws \<Rightarrow> (c # w) # ws))"

text \<open>\<open>strings.Replace(s, old, new, -1)\<close>: every \<open>old\<close> byte replaced by \<open>new\<close>.\<close>

definition Replace :: "string \<Rightarrow> char \<Rightarrow> string \<Rightarrow> string" where
  "Replace s old new = concat (map (\<lambda>c. if c = old then new else [c]) s)"

text \<open>\<open>strings.Join(elems, sep)\<close>.\<close>

fun Join :: "string list \<Rightarrow> string \<Rightarrow> string" where
  "Join [] sep = []"
| "Join [x] sep = x"
| "Join (x # y # ys) sep = x @ sep @ Join (y # ys) sep"

section \<open>Records and the number parser\<close>

text \<open>
  \<open>types.Counter\<close> is \<open>{Key string; Value float64}\<close>. The client never computes with
  a value: it stores what \<open>strconv.ParseFloat(s, 64)\<close> returns. The parser is therefore a
  parameter \<open>ParseFloat :: string \<Rightarrow> 'v option\<close> of the decoders, \<open>None\<close> standing for
  a non-nil error, and \<open>'v\<close> for the 64-bit floats; \<open>0\<close> is the value of the zero record.
\<close>

record 'v Counter =
  Key :: string
  Value :: 'v

text \<open>
  For concrete inputs the parameter is instantiated with \<open>parseDecimal\<close>, which reads
  an optional sign, digits and at most one decimal point (at least one digit, at most 300)
  as the exact rational, and rejects every other string. \<open>strconv.ParseFloat\<close> accepts
  every string \<open>parseDecimal\<close> accepts (such a number is within the range of a 64-bit
  float, and the result is the nearest one); like \<open>parseDecimal\<close>, it rejects every string
  that contains a white-space byte.
\<close>

definition isDigit :: "char \<Rightarrow> bool" where
  "isDigit c = (48 \<le> (of_char c :: nat) \<and> (of_char c :: nat) \<le> 57)"

definition digitsValue :: "string \<Rightarrow> nat" where
  "digitsValue ds = foldl (\<lambda>n c. 10 * n + ((of_char c :: nat) - 48)) 0 ds"

definition parseDecimal :: "string \<Rightarrow> rat option" where
  "parseDecimal s =
    (let neg = (s \<noteq> [] \<and> hd s = CHR ''-'');
         body = (if s \<noteq> [] \<and> (hd s = CHR ''-'' \<or> hd s = CHR ''+'') then tl s else s);
         ip = takeWhile (\<lambda>c. c \<noteq> CHR ''.'') body;
         fp = drop 1 (dropWhile (\<lambda>c. c \<noteq> CHR ''.'') body)
     in if ip @ fp \<noteq> [] \<and> length (ip @ fp) \<le> 300 \<and> list_all isDigit (ip @ fp)
        then Some ((if neg then - 1 else 1) * of_nat (digitsValue (ip @ fp)) / 10 ^ length fp)
        else None)"

section \<open>The counter decoder\<close>

text \<open>
  \<open>decodeCounterStrings\<close> returns \<open>(types.Counter, error)\<close>; the model returns
  \<open>Inl\<close> of the error's message or \<open>Inr\<close> of the record.
\<close>

definition decodeCounterStrings :: "(string \<Rightarrow> 'v option) \<Rightarrow> string \<Rightarrow> string + 'v Counter" where
  "decodeCounterStrings ParseFloat line =
    (let equal = Index line CHR ''='';
         failure = Inl (''counter - could not parse line: '' @ line)
     in if equal \<ge> 0 then
          (let key = TrimSpace (take (nat equal) line)
           in if length key > 0 then
                (let value0 = (if int (length line) > equal
                               then TrimSpace (drop (nat (equal + 1)) line) else []);
                     slices = Split value0 CHR '' '';
                     value1 = (if length slices > 0 then hd slices else value0)
                 in case ParseFloat value1 of
                      Some i \<Rightarrow> Inr \<lparr>Key = key, Value = i\<rparr>
                    | None \<Rightarrow> failure)
              else failure)
        else failure)"

text \<open>
  The loop of \<open>GetCounters\<close> over the lines it receives: a line that fails to decode is
  logged (\<open>log.Println(err)\<close>) and skipped, a decoded record is appended. The state is the
  pair of the records and the lines logged so far.
\<close>

fun countersLoop ::
  "(string \<Rightarrow> 'v option) \<Rightarrow> string list \<Rightarrow> 'v Counter list \<times> string list
    \<Rightarrow> 'v Counter list \<times> string list" where
  "countersLoop ParseFloat [] st = st"
| "countersLoop ParseFloat (line # rest) (counters, logged) =
    (case decodeCounterStrings ParseFloat line of
       Inl err \<Rightarrow> countersLoop ParseFloat rest (counters, logged @ [err])
     | Inr c \<Rightarrow> countersLoop ParseFloat rest (counters @ [c], logged))"

section \<open>The service-time decoder\<close>

text \<open>
  A header line returns the zero record \<open>types.Counter{}\<close> and a nil error. Otherwise the
  key is rewritten, and a \<open>%\<close> in the value with a non-empty text before it moves that
  text into the key and cuts the value after it at the first space.
  \<open>strings.Split(...)[0]\<close> is the head of a list that is never empty (lemma
  \<open>Split_not_Nil\<close> below).
\<close>

definition decodeServiceTimeStrings ::
  "(string \<Rightarrow> 'v option) \<Rightarrow> string \<Rightarrow> string + ('v::zero) Counter" where
  "decodeServiceTimeStrings ParseFloat line =
    (if HasSuffix line '':\<newline>'' then Inr \<lparr>Key = [], Value = 0\<rparr>
     else
      (let equal = Index line CHR '':'';
           failure = Inl (''service times - could not parse line: '' @ line)
       in if equal \<ge> 0 then
            (let key0 = TrimSpace (take (nat equal) line)
             in if length key0 > 0 then
                  (let value0 = (if int (length line) > equal
                                 then TrimSpace (drop (nat (equal + 1)) line) else []);
                       key1 = Replace (Replace (Replace key0 CHR '' '' ''_'') CHR ''('' [])
                                CHR '')'' [];
                       equalTwo = Index value0 CHR ''%'';
                       (key2, value1) =
                         (if equalTwo \<ge> 0 then
                            (let keyTwo = TrimSpace (take (nat equalTwo) value0)
                             in if length keyTwo > 0 then
                                  (key1 @ ''_'' @ keyTwo,
                                   if int (length value0) > equalTwo
                                   then hd (Split (TrimSpace (drop (nat (equalTwo + 1)) value0))
                                              CHR '' '')
                                   else value0)
                                else (key1, value0))
                          else (key1, value0))
                   in case ParseFloat value1 of
                        Some v \<Rightarrow> Inr \<lparr>Key = key2, Value = v\<rparr>
                      | None \<Rightarrow> failure)
                else failure)
          else failure))"

text \<open>
  The loop of \<open>GetServiceTimes\<close>: as for the counters, but a decoded record with an empty
  key is dropped without a log line.
\<close>

fun serviceTimesLoop ::
  "(string \<Rightarrow> 'v option) \<Rightarrow> string list \<Rightarrow> ('v::zero) Counter list \<times> string list
    \<Rightarrow> 'v Counter list \<times> string list" where
  "serviceTimesLoop ParseFloat [] st = st"
| "serviceTimesLoop ParseFloat (line # rest) (serviceTimes, logged) =
    (case decodeServiceTimeStrings ParseFloat line of
       Inl err \<Rightarrow> serviceTimesLoop ParseFloat rest (serviceTimes, logged @ [err])
     | Inr s \<Rightarrow>
         if Key s \<noteq> [] then serviceTimesLoop ParseFloat rest (serviceTimes @ [s], logged)
         else serviceTimesLoop ParseFloat rest (serviceTimes, logged))"

section \<open>The line producer\<close>

text \<open>
  The body of a response is read through a \<open>bufio.Reader\<close>: the bytes still to come and
  the error the body returns once they are read, \<open>io.EOF\<close> or another read error (with its
  message).
\<close>

datatype read_end = EOF | ReadFailure string

record reader =
  pending :: string
  ending :: read_end

text \<open>
  \<open>reader.ReadString(delim)\<close>: the bytes up to and including the first \<open>delim\<close> and a nil
  error; when no \<open>delim\<close> is left, the bytes read before the error and the error itself.
\<close>

definition ReadString :: "reader \<Rightarrow> char \<Rightarrow> (string \<times> read_end option) \<times> reader" where
  "ReadString r delim =
    (if delim \<in> set (pending r)
     then ((takeWhile (\<lambda>c. c \<noteq> delim) (pending r) @ [delim], None),
           r\<lparr>pending := tl (dropWhile (\<lambda>c. c \<noteq> delim) (pending r))\<rparr>)
     else ((pending r, Some (ending r)), r\<lparr>pending := []\<rparr>))"

lemma ReadString_shorter:
  "snd (fst (ReadString r delim)) = None \<Longrightarrow>
   length (pending (snd (ReadString r delim))) < length (pending r)"
proof -
  assume "snd (fst (ReadString r delim)) = None"
  then have mem: "delim \<in> set (pending r)"
    by (simp add: ReadString_def split: if_splits)
  then have "dropWhile (\<lambda>c. c \<noteq> delim) (pending r) \<noteq> []"
    by simp
  then have "length (tl (dropWhile (\<lambda>c. c \<noteq> delim) (pending r)))
             < length (dropWhile (\<lambda>c. c \<noteq> delim) (pending r))"
    by (cases "dropWhile (\<lambda>c. c \<noteq> delim) (pending r)") simp_all
  also have "\<dots> \<le> length (pending r)"
    by (rule length_dropWhile_le)
  finally show ?thesis using mem by (simp add: ReadString_def)
qed

text \<open>
  \<open>readLines\<close> sends every line read with a nil error to the channel and stops at the first
  error: silently at \<open>io.EOF\<close>, with a log line otherwise. The line returned together with
  the error is not sent. The result is the sequence of lines sent before the channel is
  closed, and what the producer logged.
\<close>

function readLines :: "reader \<Rightarrow> string list \<times> string list" where
  "readLines r =
    (case snd (fst (ReadString r CHR ''\<newline>'')) of
       Some EOF \<Rightarrow> ([], [])
     | Some (ReadFailure e) \<Rightarrow> ([], [''error reading from the bufio.Reader: '' @ e])
     | None \<Rightarrow>
         (case readLines (snd (ReadString r CHR ''\<newline>'')) of
            (lines, logged) \<Rightarrow> (fst (fst (ReadString r CHR ''\<newline>'')) # lines, logged)))"
  by pat_completeness auto
termination
  by (relation "measure (\<lambda>r. length (pending r))") (simp_all add: ReadString_shorter)

declare readLines.simps [simp del]

section \<open>Formatting\<close>

text \<open>
  The decimal rendering of an integer, as the verb \<open>%d\<close> of Go's \<open>fmt\<close> writes it.
\<close>

fun showNat :: "nat \<Rightarrow> string" where
  "showNat n = (if n < 10 then [char_of (48 + n)] else showNat (n div 10) @ [char_of (48 + n mod 10)])"

declare showNat.simps [simp del]

definition showInt :: "int \<Rightarrow> string" where
  "showInt i = (if i < 0 then CHR ''-'' # showNat (nat (- i)) else showNat (nat i))"

text \<open>
  \<open>get\<close> passes the request it built to \<open>fmt.Fprintf\<close> as the format string, with no
  operand. \<open>Fprintf\<close> below is what \<open>fmt\<close> writes for a format and no operands: text
  outside directives is copied; a directive is a \<open>%\<close>, flags, an optional argument index
  \<open>[n]\<close>, a width, a precision and a verb; \<open>%%\<close> writes a percent sign, a verb without its
  operand writes \<open>%!verb(MISSING)\<close>, and the other diagnostics are \<open>%!(NOVERB)\<close>,
  \<open>%!(BADWIDTH)\<close>, \<open>%!(BADPREC)\<close> and \<open>%!verb(BADINDEX)\<close>.
\<close>

definition isFlag :: "char \<Rightarrow> bool" where
  "isFlag c = (c \<in> {CHR ''#'', CHR ''0'', CHR ''+'', CHR ''-'', CHR '' ''})"

text \<open>
  \<open>parsenum\<close>: whether digits were read, and the text after them; a number past
  1000000 gives up and skips to the end of the text.
\<close>

fun parsenumFrom :: "nat \<Rightarrow> bool \<Rightarrow> string \<Rightarrow> bool \<times> string" where
  "parsenumFrom num isnum [] = (isnum, [])"
| "parsenumFrom num isnum (c # cs) =
    (if isDigit c
     then (if num > 1000000 then (False, [])
           else parsenumFrom (num * 10 + ((of_char c :: nat) - 48)) True cs)
     else (isnum, c # cs))"

definition parsenum :: "string \<Rightarrow> bool \<times> string" where
  "parsenum s = parsenumFrom 0 False s"

text \<open>
  \<open>parseArgNumber\<close> on a text that starts with \<open>[\<close>: the number of bytes to skip and
  whether a well-formed index \<open>[n]\<close> was read.
\<close>

definition parseArgNumber :: "string \<Rightarrow> nat \<times> bool" where
  "parseArgNumber t =
    (if length t < 3 \<or> CHR '']'' \<notin> set (tl t) then (1, False)
     else (let inner = takeWhile (\<lambda>c. c \<noteq> CHR '']'') (tl t)
           in (length inner + 2, fst (parsenum inner) \<and> snd (parsenum inner) = [])))"

text \<open>
  \<open>argNumber\<close> with no operands: the text after an index, whether a well-formed index was
  found, and whether the directive's argument number became bad (with no operand every
  index is out of range).
\<close>

definition argNumber :: "string \<Rightarrow> string \<times> bool \<times> bool" where
  "argNumber t =
    (if t = [] \<or> hd t \<noteq> CHR ''['' then (t, False, False)
     else (drop (fst (parseArgNumber t)) t, snd (parseArgNumber t), True))"

text \<open>
  The width in bytes of the UTF-8 encoding at the head of a text, 0 when the head is not
  a valid encoding (\<open>utf8.DecodeRuneInString\<close> then returns U+FFFD and the width 1).
\<close>

definition tailOk :: "nat \<Rightarrow> nat \<Rightarrow> nat \<Rightarrow> string \<Rightarrow> bool" where
  "tailOk lo hi k r =
    (case r of
       [] \<Rightarrow> False
     | b # r' \<Rightarrow>
         lo \<le> (of_char b :: nat) \<and> (of_char b :: nat) \<le> hi \<and> k \<le> length r' \<and>
         list_all (\<lambda>c. 0x80 \<le> (of_char c :: nat) \<and> (of_char c :: nat) \<le> 0xBF) (take k r'))"

definition runeWidth :: "string \<Rightarrow> nat" where
  "runeWidth s =
    (case s of
       [] \<Rightarrow> 0
     | b # r \<Rightarrow>
         (let n = (of_char b :: nat)
          in if n < 0x80 then 1
             else if 0xC2 \<le> n \<and> n \<le> 0xDF then (if tailOk 0x80 0xBF 0 r then 2 else 0)
             else if n = 0xE0 then (if tailOk 0xA0 0xBF 1 r then 3 else 0)
             else if n = 0xED then (if tailOk 0x80 0x9F 1 r then 3 else 0)
             else if 0xE1 \<le> n \<and> n \<le> 0xEF then (if tailOk 0x80 0xBF 1 r then 3 else 0)
             else if n = 0xF0 then (if tailOk 0x90 0xBF 2 r then 4 else 0)
             else if 0xF1 \<le> n \<and> n \<le> 0xF3 then (if tailOk 0x80 0xBF 2 r then 4 else 0)
             else if n = 0xF4 then (if tailOk 0x80 0x8F 2 r then 4 else 0)
             else 0))"

text \<open>The verb of a directive as \<open>fmt\<close> writes it back, and the text after it.\<close>

definition decodeVerb :: "string \<Rightarrow> string \<times> string" where
  "decodeVerb t =
    (if runeWidth t = 0 then ([CHR 0xEF, CHR 0xBF, CHR 0xBD], tl t)
     else (take (runeWidth t) t, drop (runeWidth t) t))"

text \<open>
  One directive, from the byte after its \<open>%\<close>, in the steps of \<open>doPrintf\<close>. The state
  carried from step to step is the format text left, whether the last thing read was a
  well-formed index, and whether the argument number is bad.

  The width: a \<open>*\<close> takes the width from an operand, and there is none; otherwise digits.
\<close>

definition widthStep :: "string \<times> bool \<times> bool \<Rightarrow> string \<times> string \<times> bool \<times> bool" where
  "widthStep st =
    (case st of (t, afterIndex, bad) \<Rightarrow>
       if t \<noteq> [] \<and> hd t = CHR ''*'' then (''%!(BADWIDTH)'', tl t, False, bad)
       else ([], snd (parsenum t), afterIndex, bad \<or> (afterIndex \<and> fst (parsenum t))))"

text \<open>The precision: a \<open>.\<close>, then an optional index, then \<open>*\<close> or digits.\<close>

definition precisionStep :: "string \<times> bool \<times> bool \<Rightarrow> string \<times> string \<times> bool \<times> bool" where
  "precisionStep st =
    (case st of (t, afterIndex, bad) \<Rightarrow>
       if t \<noteq> [] \<and> hd t = CHR ''.'' then
         (case argNumber (tl t) of (t', afterIndex', bad') \<Rightarrow>
            if t' \<noteq> [] \<and> hd t' = CHR ''*''
            then (''%!(BADPREC)'', tl t', False, bad \<or> afterIndex \<or> bad')
            else ([], snd (parsenum t'), afterIndex', bad \<or> afterIndex \<or> bad'))
       else ([], t, afterIndex, bad))"

text \<open>An index right before the verb is read when none was read just before.\<close>

definition indexStep :: "string \<times> bool \<times> bool \<Rightarrow> string \<times> bool" where
  "indexStep st =
    (case st of (t, afterIndex, bad) \<Rightarrow>
       if \<not> afterIndex then (fst (argNumber t), bad \<or> snd (snd (argNumber t)))
       else (t, bad))"

text \<open>The verb: what is written for it, and the format text after it.\<close>

definition verbStep :: "string \<times> bool \<Rightarrow> string \<times> string" where
  "verbStep st =
    (case st of (t, bad) \<Rightarrow>
       if t = [] then (''%!(NOVERB)'', [])
       else (let verb = fst (decodeVerb t)
             in (if verb = ''%'' then ''%''
                 else if bad then ''%!'' @ verb @ ''(BADINDEX)''
                 else ''%!'' @ verb @ ''(MISSING)'',
                 snd (decodeVerb t))))"

definition directive :: "string \<Rightarrow> string \<times> string" where
  "directive t =
    (let w = widthStep (argNumber (dropWhile isFlag t));
         p = precisionStep (snd w);
         v = verbStep (indexStep (snd p))
     in (fst w @ fst p @ fst v, snd v))"

lemma parsenumFrom_length: "length (snd (parsenumFrom n b s)) \<le> length s"
  by (induction s arbitrary: n b) (auto simp: le_SucI)

lemma parsenum_length: "length (snd (parsenum s)) \<le> length s"
  by (simp add: parsenum_def parsenumFrom_length)

lemma argNumber_length: "length (fst (argNumber t)) \<le> length t"
  by (simp add: argNumber_def)

lemma widthStep_length: "length (fst (snd (widthStep st))) \<le> length (fst st)"
  by (cases st) (simp add: widthStep_def parsenum_length)

lemma precisionStep_length: "length (fst (snd (precisionStep st))) \<le> length (fst st)"
proof (cases st)
  case (fields t afterIndex bad)
  have a: "length (fst (argNumber (tl t))) \<le> length t"
    using argNumber_length [of "tl t"] by simp
  have b: "length (snd (parsenum (fst (argNumber (tl t))))) \<le> length t"
    using parsenum_length [of "fst (argNumber (tl t))"] a by linarith
  show ?thesis
    using a b by (auto simp: fields precisionStep_def split_beta)
qed

lemma indexStep_length: "length (fst (indexStep st)) \<le> length (fst st)"
  by (cases st) (simp add: indexStep_def argNumber_length)

lemma verbStep_length: "length (snd (verbStep st)) \<le> length (fst st)"
  by (cases st) (simp add: verbStep_def decodeVerb_def Let_def)

lemma directive_length: "length (snd (directive t)) \<le> length t"
proof -
  let ?a = "argNumber (dropWhile isFlag t)"
  let ?w = "widthStep ?a"
  let ?p = "precisionStep (snd ?w)"
  let ?i = "indexStep (snd ?p)"
  have "length (snd (verbStep ?i)) \<le> length (fst ?i)"
    by (rule verbStep_length)
  also have "\<dots> \<le> length (fst (snd ?p))"
    by (rule indexStep_length)
  also have "\<dots> \<le> length (fst (snd ?w))"
    by (rule precisionStep_length)
  also have "\<dots> \<le> length (fst ?a)"
    by (rule widthStep_length)
  also have "\<dots> \<le> length (dropWhile isFlag t)"
    by (rule argNumber_length)
  also have "\<dots> \<le> length t"
    by (rule length_dropWhile_le)
  finally show ?thesis
    by (simp add: directive_def Let_def)
qed

text \<open>
  \<open>fmt.Fprintf(w, format)\<close> with no operands: the bytes written to \<open>w\<close>.
\<close>

function Fprintf :: "string \<Rightarrow> string" where
  "Fprintf format =
    (if CHR ''%'' \<notin> set format then format
     else takeWhile (\<lambda>c. c \<noteq> CHR ''%'') format
          @ fst (directive (tl (dropWhile (\<lambda>c. c \<noteq> CHR ''%'') format)))
          @ Fprintf (snd (directive (tl (dropWhile (\<lambda>c. c \<noteq> CHR ''%'') format)))))"
  by pat_completeness auto
termination
proof (relation "measure length")
  show "wf (measure length)" by simp
next
  fix format :: string
  assume "\<not> CHR ''%'' \<notin> set format"
  then have ne: "dropWhile (\<lambda>c. c \<noteq> CHR ''%'') format \<noteq> []"
    by simp
  have "length (snd (directive (tl (dropWhile (\<lambda>c. c \<noteq> CHR ''%'') format))))
        \<le> length (tl (dropWhile (\<lambda>c. c \<noteq> CHR ''%'') format))"
    by (rule directive_length)
  also have "\<dots> < length (dropWhile (\<lambda>c. c \<noteq> CHR ''%'') format)"
    using ne by (cases "dropWhile (\<lambda>c. c \<noteq> CHR ''%'') format") simp_all
  also have "\<dots> \<le> length format"
    by (rule length_dropWhile_le)
  finally show "(snd (directive (tl (dropWhile (\<lambda>c. c \<noteq> CHR ''%'') format))), format)
                \<in> measure length"
    by simp
qed

declare Fprintf.simps [simp del]

section \<open>The client\<close>

text \<open>
  \<open>base64.StdEncoding.EncodeToString\<close>: the standard alphabet of RFC 4648, three bytes
  to four characters, the last group padded with \<open>=\<close>.
\<close>

definition encodeStd :: string where
  "encodeStd = ''ABCDEFGHIJKLMNOPQRSTUVWXYZabcdefghijklmnopqrstuvwxyz0123456789+/''"

fun EncodeToString :: "string \<Rightarrow> string" where
  "EncodeToString [] = []"
| "EncodeToString [a] =
    (let n = (of_char a :: nat) * 65536
     in [encodeStd ! (n div 262144), encodeStd ! (n div 4096 mod 64), CHR ''='', CHR ''=''])"
| "EncodeToString [a, b] =
    (let n = (of_char a :: nat) * 65536 + (of_char b :: nat) * 256
     in [encodeStd ! (n div 262144), encodeStd ! (n div 4096 mod 64),
         encodeStd ! (n div 64 mod 64), CHR ''=''])"
| "EncodeToString (a # b # c # rest) =
    (let n = (of_char a :: nat) * 65536 + (of_char b :: nat) * 256 + (of_char c :: nat)
     in [encodeStd ! (n div 262144), encodeStd ! (n div 4096 mod 64),
         encodeStd ! (n div 64 mod 64), encodeStd ! (n mod 64)]
        @ EncodeToString rest)"

definition buildBasicAuthString :: "string \<Rightarrow> string \<Rightarrow> string" where
  "buildBasicAuthString login password =
    (if length login = 0 then [] else EncodeToString (login @ '':'' @ password))"

record CacheObjectClient =
  hostname :: string
  port :: int
  basicAuthString :: string
  headers :: "string \<rightharpoonup> string"
  withProxyProtocal :: bool

definition NewCacheObjectClient ::
  "string \<Rightarrow> int \<Rightarrow> string \<Rightarrow> string \<Rightarrow> bool \<Rightarrow> CacheObjectClient" where
  "NewCacheObjectClient host portNo login password withProxy =
    \<lparr>hostname = host, port = portNo, basicAuthString = buildBasicAuthString login password,
     headers = Map.empty, withProxyProtocal = withProxy\<rparr>"

text \<open>
  The peer. A fetch dials the address, optionally writes the proxy-protocol header,
  writes the request and parses a response. What the peer does is the parameter of the
  model: the error of \<open>net.Dial\<close> for an address (\<open>None\<close> when the connection opens), the
  error of writing the proxy-protocol header, and what \<open>http.ReadResponse\<close> returns on the
  connection, an error or a response with its status code and its body.
\<close>

record response =
  StatusCode :: int
  Body :: reader

record network =
  dialError :: "string \<Rightarrow> string option"
  headerWriteError :: "string option"
  readResponse :: "string + response"

text \<open>A connection is known by what will be read from it.\<close>

type_synonym conn = "string + response"

definition connect :: "network \<Rightarrow> string \<Rightarrow> int \<Rightarrow> string + conn" where
  "connect net host portNo =
    (case dialError net (host @ '':'' @ showInt portNo) of
       Some err \<Rightarrow> Inl err
     | None \<Rightarrow> Inr (readResponse net))"

text \<open>\<open>fmt.Sprintf(requestProtocol, path)\<close>: the verb \<open>%s\<close> copies its string operand.\<close>

definition requestProtocol :: "string \<Rightarrow> string" where
  "requestProtocol path = ''GET cache_object://localhost/'' @ path @ '' HTTP/1.0''"

definition CRLF :: string where
  "CRLF = [CHR 0x0D, CHR 0x0A]"

text \<open>
  \<open>get\<close> returns the bytes it wrote to the connection and the result of
  \<open>http.ReadResponse\<close>. The request is the format string of \<open>fmt.Fprintf\<close>.
\<close>

definition get :: "conn \<Rightarrow> string \<Rightarrow> string \<Rightarrow> string \<times> (string + response)" where
  "get c path basicAuth =
    (let rBody0 = [requestProtocol path, ''Host: localhost'', ''User-Agent: squidclient/3.5.12''];
         rBody1 = (if length basicAuth > 0
                   then rBody0 @ [''Proxy-Authorization: Basic '' @ basicAuth] else rBody0);
         rBody2 = rBody1 @ [''Accept: */*'', CRLF];
         request = Join rBody2 CRLF
     in (Fprintf request, c))"

text \<open>\<open>readFromSquid\<close> returns the error's message or the reader over the body.\<close>

definition readFromSquid ::
  "network \<Rightarrow> string \<Rightarrow> int \<Rightarrow> string \<Rightarrow> string \<Rightarrow> bool \<Rightarrow> string + reader" where
  "readFromSquid net host portNo basicAuth endpoint withProxy =
    (case connect net host portNo of
       Inl err \<Rightarrow> Inl err
     | Inr c \<Rightarrow>
         (case (if withProxy then headerWriteError net else None) of
            Some err \<Rightarrow> Inl err
          | None \<Rightarrow>
              (case snd (get c endpoint basicAuth) of
                 Inl err \<Rightarrow> Inl err
               | Inr r \<Rightarrow>
                   if StatusCode r \<noteq> 200
                   then Inl (''Non success code '' @ showInt (StatusCode r)
                             @ '' while fetching metrics'')
                   else Inr (Body r))))"

text \<open>
  What a fetch gives back: the pair \<open>(types.Counters, error)\<close> it returns (a nil slice is
  the empty list, a nil error is \<open>None\<close>), the lines its decode loop logged and the lines
  its line producer logged. At its last line a fetch returns the variable \<open>err\<close> that
  \<open>readFromSquid\<close> assigned; it is nil there, since a non-nil one has returned before.
\<close>

record 'v fetched =
  counters :: "'v Counter list"
  failure :: "string option"
  decodeLogged :: "string list"
  readLogged :: "string list"

definition GetCounters ::
  "(string \<Rightarrow> 'v option) \<Rightarrow> network \<Rightarrow> CacheObjectClient \<Rightarrow> 'v fetched" where
  "GetCounters ParseFloat net c =
    (case readFromSquid net (hostname c) (port c) (basicAuthString c) ''counters''
            (withProxyProtocal c) of
       Inl err \<Rightarrow>
         \<lparr>counters = [], failure = Some (''error getting counters: '' @ err),
          decodeLogged = [], readLogged = []\<rparr>
     | Inr r \<Rightarrow>
         (let lines = readLines r;
              result = countersLoop ParseFloat (fst lines) ([], [])
          in \<lparr>counters = fst result, failure = None,
              decodeLogged = snd result, readLogged = snd lines\<rparr>))"

definition GetServiceTimes ::
  "(string \<Rightarrow> 'v option) \<Rightarrow> network \<Rightarrow> CacheObjectClient \<Rightarrow> ('v::zero) fetched" where
  "GetServiceTimes ParseFloat net c =
    (case readFromSquid net (hostname c) (port c) (basicAuthString c) ''service_times''
            (withProxyProtocal c) of
       Inl err \<Rightarrow>
         \<lparr>counters = [], failure = Some (''error getting service times: '' @ err),
          decodeLogged = [], readLogged = []\<rparr>
     | Inr r \<Rightarrow>
         (let lines = readLines r;
              result = serviceTimesLoop ParseFloat (fst lines) ([], [])
          in \<lparr>counters = fst result, failure = None,
              decodeLogged = snd result, readLogged = snd lines\<rparr>))"

section \<open>Notions of the specification\<close>

text \<open>
  The specification speaks of the text before and after the first occurrence of a
  separator, of the first white-space-delimited token of a text, of newline-terminated
  lines, and of the base key of a label: its spaces replaced by underscores and its
  parentheses removed. \<open>firstField\<close> is the first field of \<open>strings.Fields\<close> on ASCII text:
  leading white space skipped, then everything up to the next white-space byte.
\<close>

definition textBefore :: "string \<Rightarrow> char \<Rightarrow> string" where
  "textBefore s sep = takeWhile (\<lambda>c. c \<noteq> sep) s"

definition textAfter :: "string \<Rightarrow> char \<Rightarrow> string" where
  "textAfter s sep = tl (dropWhile (\<lambda>c. c \<noteq> sep) s)"

definition firstField :: "string \<Rightarrow> string" where
  "firstField s = takeWhile (\<lambda>c. \<not> asciiSpace c) (dropWhile asciiSpace s)"

definition newlineTerminated :: "string \<Rightarrow> bool" where
  "newlineTerminated l =
    (l \<noteq> [] \<and> last l = CHR ''\<newline>'' \<and> CHR ''\<newline>'' \<notin> set (butlast l))"

definition baseKey :: "string \<Rightarrow> string" where
  "baseKey label =
    map (\<lambda>c. if c = CHR '' '' then CHR ''_'' else c)
      (filter (\<lambda>c. c \<noteq> CHR ''('' \<and> c \<noteq> CHR '')'') label)"

text \<open>
  A peer answers a client with a response when the connection opens, the proxy-protocol
  header (when the client writes one) is written without error, and the response parses.
\<close>

definition answers :: "network \<Rightarrow> CacheObjectClient \<Rightarrow> response \<Rightarrow> bool" where
  "answers net c r =
    (dialError net (hostname c @ '':'' @ showInt (port c)) = None \<and>
     (if withProxyProtocal c then headerWriteError net else None) = None \<and>
     readResponse net = Inr r)"

text \<open>What the line producer logs for the way its stream ends.\<close>

definition producerLog :: "read_end \<Rightarrow> string list" where
  "producerLog e =
    (case e of
       EOF \<Rightarrow> []
     | ReadFailure m \<Rightarrow> [''error reading from the bufio.Reader: '' @ m])"

text \<open>
  A peer and a client for the concrete runs below: the peer accepts every connection and
  answers with the given status code and body; the client has no credentials.
\<close>

definition examplePeer :: "int \<Rightarrow> string \<Rightarrow> read_end \<Rightarrow> network" where
  "examplePeer code body e =
    \<lparr>dialError = (\<lambda>address. None), headerWriteError = None,
     readResponse = Inr \<lparr>StatusCode = code, Body = \<lparr>pending = body, ending = e\<rparr>\<rparr>\<rparr>"

definition exampleClient :: CacheObjectClient where
  "exampleClient = NewCacheObjectClient ''localhost'' 3128 [] [] False"

section \<open>Facts about the library functions\<close>

lemma Index_nonneg: "(Index s sep \<ge> 0) = (sep \<in> set s)"
  by (simp add: Index_def)

lemma take_Index: "sep \<in> set s \<Longrightarrow> take (nat (Index s sep)) s = textBefore s sep"
  by (simp add: Index_def textBefore_def takeWhile_eq_take [symmetric])

lemma drop_Index: "sep \<in> set s \<Longrightarrow> drop (nat (Index s sep + 1)) s = textAfter s sep"
proof -
  assume "sep \<in> set s"
  then have "nat (Index s sep + 1) = Suc (length (takeWhile (\<lambda>c. c \<noteq> sep) s))"
    by (simp add: Index_def)
  then show ?thesis
    by (simp add: textAfter_def dropWhile_eq_drop drop_Suc tl_drop)
qed

lemma Index_less_length: "Index s sep < int (length s)"
proof (cases "sep \<in> set s")
  case True
  then have "length (takeWhile (\<lambda>c. c \<noteq> sep) s) < length s"
    by (induction s) auto
  with True show ?thesis by (simp add: Index_def)
next
  case False
  then show ?thesis by (simp add: Index_def)
qed

lemma Split_not_Nil: "Split s sep \<noteq> []"
  by (induction s) (auto split: list.splits)

lemma hd_Split: "hd (Split s sep) = textBefore s sep"
  by (induction s) (auto simp: textBefore_def Split_not_Nil split: list.splits)

lemma Replace_baseKey:
  "Replace (Replace (Replace label CHR '' '' ''_'') CHR ''('' []) CHR '')'' [] = baseKey label"
  by (induction label) (auto simp: Replace_def baseKey_def)

lemma parseDecimal_1: "parseDecimal ''1'' = Some 1"
  by (simp add: parseDecimal_def isDigit_def digitsValue_def)

lemma length_filter_compl:
  "length (filter (\<lambda>x. \<not> P x) xs) = length xs - length (filter P xs)"
  using sum_length_filter_compl [of P xs] by linarith

section \<open>Facts about the line producer and the decode loops\<close>

lemma ReadString_line:
  assumes "CHR ''\<newline>'' \<notin> set b"
  shows "ReadString \<lparr>pending = b @ CHR ''\<newline>'' # rest, ending = e\<rparr> CHR ''\<newline>''
         = ((b @ [CHR ''\<newline>''], None), \<lparr>pending = rest, ending = e\<rparr>)"
proof -
  have "takeWhile (\<lambda>c. c \<noteq> CHR ''\<newline>'') (b @ CHR ''\<newline>'' # rest) = b"
    using assms by (induction b) auto
  moreover have "dropWhile (\<lambda>c. c \<noteq> CHR ''\<newline>'') (b @ CHR ''\<newline>'' # rest)
                 = CHR ''\<newline>'' # rest"
    using assms by (induction b) auto
  ultimately show ?thesis
    by (simp add: ReadString_def)
qed

lemma ReadString_tail:
  assumes "CHR ''\<newline>'' \<notin> set tail"
  shows "ReadString \<lparr>pending = tail, ending = e\<rparr> CHR ''\<newline>''
         = ((tail, Some e), \<lparr>pending = [], ending = e\<rparr>)"
  using assms by (simp add: ReadString_def)

lemma newlineTerminated_split:
  "newlineTerminated l \<Longrightarrow> \<exists>b. l = b @ [CHR ''\<newline>''] \<and> CHR ''\<newline>'' \<notin> set b"
  by (metis append_butlast_last_id newlineTerminated_def)

text \<open>
  The producer sends exactly the newline-terminated lines of the body, in order; the
  bytes after the last newline are not sent.
\<close>

lemma readLines_concat:
  assumes "\<forall>l \<in> set ls. newlineTerminated l" and "CHR ''\<newline>'' \<notin> set tail"
  shows "readLines \<lparr>pending = concat ls @ tail, ending = e\<rparr> = (ls, producerLog e)"
  using assms
proof (induction ls)
  case Nil
  then show ?case
    by (simp add: readLines.simps ReadString_tail producerLog_def split: read_end.split)
next
  case (Cons l ls)
  then obtain b where l: "l = b @ [CHR ''\<newline>'']" and b: "CHR ''\<newline>'' \<notin> set b"
    using newlineTerminated_split by auto
  have "readLines \<lparr>pending = b @ CHR ''\<newline>'' # (concat ls @ tail), ending = e\<rparr>
        = (l # ls, producerLog e)"
    using Cons
    by (subst readLines.simps) (simp add: ReadString_line [OF b] l)
  then show ?case by (simp add: l)
qed

lemma countersLoop_eq:
  "countersLoop pf ls (cs, lg) =
    (cs @ map (\<lambda>l. projr (decodeCounterStrings pf l))
            (filter (\<lambda>l. \<not> isl (decodeCounterStrings pf l)) ls),
     lg @ map (\<lambda>l. projl (decodeCounterStrings pf l))
            (filter (\<lambda>l. isl (decodeCounterStrings pf l)) ls))"
  by (induction ls arbitrary: cs lg) (auto split: sum.splits)

lemma serviceTimesLoop_append:
  "serviceTimesLoop pf (xs @ ys) st = serviceTimesLoop pf ys (serviceTimesLoop pf xs st)"
proof (induction xs arbitrary: st)
  case Nil
  then show ?case by simp
next
  case (Cons x xs)
  then show ?case by (cases st) (simp split: sum.splits)
qed

lemma readFromSquid_answers:
  "answers net c r \<Longrightarrow>
   readFromSquid net (hostname c) (port c) auth endpoint (withProxyProtocal c) =
     (if StatusCode r \<noteq> 200
      then Inl (''Non success code '' @ showInt (StatusCode r) @ '' while fetching metrics'')
      else Inr (Body r))"
  by (simp add: answers_def readFromSquid_def connect_def get_def Let_def)

lemma answers_examplePeer:
  "answers (examplePeer code body e) exampleClient
     \<lparr>StatusCode = code, Body = \<lparr>pending = body, ending = e\<rparr>\<rparr>"
  by (simp add: answers_def examplePeer_def exampleClient_def NewCacheObjectClient_def)

text \<open>The lines of the concrete runs, decoded.\<close>

lemma decodeCounterStrings_a:
  "decodeCounterStrings parseDecimal ''a = 1\<newline>'' = Inr \<lparr>Key = ''a'', Value = 1\<rparr>"
  by code_simp

lemma decodeCounterStrings_b:
  "decodeCounterStrings parseDecimal ''b = 2\<newline>'' = Inr \<lparr>Key = ''b'', Value = 2\<rparr>"
  by code_simp

lemma decodeCounterStrings_junk:
  "decodeCounterStrings parseDecimal ''junk\<newline>''
     = Inl ''counter - could not parse line: junk\<newline>''"
  by code_simp

lemma decodeServiceTimeStrings_dns:
  "decodeServiceTimeStrings parseDecimal ''DNS Lookups: 0.0045\<newline>''
     = Inr \<lparr>Key = ''DNS_Lookups'', Value = 45 / 10000\<rparr>"
  by code_simp

lemma readLines_example_failure:
  "readLines \<lparr>pending = ''a = 1\<newline>b = '', ending = ReadFailure ''connection reset by peer''\<rparr>
     = ([''a = 1\<newline>''], [''error reading from the bufio.Reader: connection reset by peer''])"
proof -
  have h1: "\<forall>l \<in> set [''a = 1\<newline>'']. newlineTerminated l"
    by (simp add: newlineTerminated_def)
  have h2: "CHR ''\<newline>'' \<notin> set ''b = ''"
    by simp
  show ?thesis
    using readLines_concat [OF h1 h2, of "ReadFailure ''connection reset by peer''"]
    by (simp add: producerLog_def)
qed

section \<open>The counter decoder: the value is cut at the first space\<close>

text \<open>
  Claim C5, as the code has it. For every counters line with an \<open>=\<close> whose text before the
  first \<open>=\<close> trims to a non-empty key, the text handed to the number parser is the trimmed
  text after the \<open>=\<close> up to its first space character (U+0020), and whatever follows that
  space is discarded. The line decodes to the key and the parsed number when the parser
  accepts that text, and fails otherwise. Only the space character delimits: a tab inside
  the value stays in the text that is parsed.
\<close>

theorem decodeCounterStrings_value_cut_at_space:
  assumes "CHR ''='' \<in> set line"
    and "TrimSpace (textBefore line CHR ''='') \<noteq> []"
  shows "decodeCounterStrings ParseFloat line =
    (case ParseFloat (textBefore (TrimSpace (textAfter line CHR ''='')) CHR '' '') of
       Some v \<Rightarrow> Inr \<lparr>Key = TrimSpace (textBefore line CHR ''=''), Value = v\<rparr>
     | None \<Rightarrow> Inl (''counter - could not parse line: '' @ line))"
  using assms Index_less_length [of line "CHR ''=''"]
  by (simp add: decodeCounterStrings_def Let_def Index_nonneg take_Index drop_Index
      Split_not_Nil hd_Split split: option.split)

text \<open>
  The instance of the specification: the trailing word of the \<open>sample_time\<close> line is
  discarded.
\<close>

theorem decodeCounterStrings_sample_time:
  "CHR ''='' \<in> set ''sample_time = 1609459200.123456 seconds\<newline>'' \<and>
   TrimSpace (textBefore ''sample_time = 1609459200.123456 seconds\<newline>'' CHR ''='')
     = ''sample_time'' \<and>
   decodeCounterStrings parseDecimal ''sample_time = 1609459200.123456 seconds\<newline>''
     = Inr \<lparr>Key = ''sample_time'', Value = 1609459200123456 / 1000000\<rparr>"
proof -
  let ?line = "''sample_time = 1609459200.123456 seconds\<newline>''"
  have h1: "CHR ''='' \<in> set ?line"
    by simp
  have h2: "TrimSpace (textBefore ?line CHR ''='') = ''sample_time''"
    by code_simp
  have h3: "textBefore (TrimSpace (textAfter ?line CHR ''='')) CHR '' '' = ''1609459200.123456''"
    by code_simp
  have h4: "parseDecimal ''1609459200.123456'' = Some (1609459200123456 / 1000000)"
    by (simp add: parseDecimal_def isDigit_def digitsValue_def)
  have k: "TrimSpace (textBefore ?line CHR ''='') \<noteq> []"
    by (simp add: h2)
  show ?thesis
    using decodeCounterStrings_value_cut_at_space [OF h1 k, of parseDecimal] h1 h2 h3 h4
    by simp
qed

text \<open>
  Claim C5 as stated fails where the white space inside the value is not a space. On the
  line \<open>a = 1<TAB>x\<close> the first white-space-delimited token of the value is \<open>1\<close>, a number,
  but the decoder parses \<open>1<TAB>x\<close> and fails.
\<close>

theorem decodeCounterStrings_tab_not_delimiter:
  "firstField (TrimSpace (textAfter (''a = 1'' @ [CHR 0x09] @ ''x\<newline>'') CHR ''='')) = ''1'' \<and>
   parseDecimal ''1'' = Some 1 \<and>
   decodeCounterStrings parseDecimal (''a = 1'' @ [CHR 0x09] @ ''x\<newline>'')
     = Inl (''counter - could not parse line: a = 1'' @ [CHR 0x09] @ ''x\<newline>'')"
proof -
  have a: "firstField (TrimSpace (textAfter (''a = 1'' @ [CHR 0x09] @ ''x\<newline>'') CHR ''=''))
            = ''1''"
    by code_simp
  have c: "decodeCounterStrings parseDecimal (''a = 1'' @ [CHR 0x09] @ ''x\<newline>'')
     = Inl (''counter - could not parse line: a = 1'' @ [CHR 0x09] @ ''x\<newline>'')"
    by code_simp
  from a parseDecimal_1 c show ?thesis by blast
qed

section \<open>The counters fetch skips malformed lines and keeps the order\<close>

text \<open>
  Claim C2. When the peer answers 200 with a body made of the newline-terminated lines
  \<open>ls\<close>, \<open>GetCounters\<close> returns the decodings of the lines that decode, in the order of
  the lines; their number is the number of lines minus the number of lines that fail to
  decode; each failing line is logged and the fetch ends with a nil error.
\<close>

theorem GetCounters_skips_malformed_lines:
  assumes "\<forall>l \<in> set ls. newlineTerminated l"
    and "answers net c r"
    and "StatusCode r = 200"
    and "Body r = \<lparr>pending = concat ls, ending = e\<rparr>"
  shows "counters (GetCounters pf net c)
           = map (\<lambda>l. projr (decodeCounterStrings pf l))
               (filter (\<lambda>l. \<not> isl (decodeCounterStrings pf l)) ls) \<and>
         length (counters (GetCounters pf net c))
           = length ls - length (filter (\<lambda>l. isl (decodeCounterStrings pf l)) ls) \<and>
         decodeLogged (GetCounters pf net c)
           = map (\<lambda>l. projl (decodeCounterStrings pf l))
               (filter (\<lambda>l. isl (decodeCounterStrings pf l)) ls) \<and>
         failure (GetCounters pf net c) = None"
proof -
  have "readLines (Body r) = (ls, producerLog e)"
    using readLines_concat [OF assms(1), of "[]" e] assms(4) by simp
  then show ?thesis
    using assms(2,3)
    by (simp add: GetCounters_def readFromSquid_answers Let_def countersLoop_eq
        length_filter_compl)
qed

text \<open>Three lines, the second malformed: two records, in the order of their lines.\<close>

theorem GetCounters_three_lines_one_malformed:
  "counters (GetCounters parseDecimal
      (examplePeer 200 ''a = 1\<newline>junk\<newline>b = 2\<newline>'' EOF) exampleClient)
     = [\<lparr>Key = ''a'', Value = 1\<rparr>, \<lparr>Key = ''b'', Value = 2\<rparr>] \<and>
   decodeLogged (GetCounters parseDecimal
      (examplePeer 200 ''a = 1\<newline>junk\<newline>b = 2\<newline>'' EOF) exampleClient)
     = [''counter - could not parse line: junk\<newline>'']"
proof -
  let ?ls = "[''a = 1\<newline>'', ''junk\<newline>'', ''b = 2\<newline>'']"
  let ?r = "\<lparr>StatusCode = 200,
             Body = \<lparr>pending = ''a = 1\<newline>junk\<newline>b = 2\<newline>'', ending = EOF\<rparr>\<rparr>"
  have h1: "\<forall>l \<in> set ?ls. newlineTerminated l"
    by (simp add: newlineTerminated_def)
  have h2: "answers (examplePeer 200 ''a = 1\<newline>junk\<newline>b = 2\<newline>'' EOF) exampleClient ?r"
    by (rule answers_examplePeer)
  have h3: "StatusCode ?r = 200"
    by simp
  have h4: "Body ?r = \<lparr>pending = concat ?ls, ending = EOF\<rparr>"
    by simp
  show ?thesis
    using GetCounters_skips_malformed_lines [OF h1 h2 h3 h4, of parseDecimal]
    by (simp add: decodeCounterStrings_a decodeCounterStrings_b decodeCounterStrings_junk)
qed

section \<open>Header lines of the service-times report\<close>

text \<open>
  Claim C6. A line that ends with a colon followed by the line feed decodes to the zero
  record with a nil error, and the loop of \<open>GetServiceTimes\<close> passes over it: with the
  line or without it, the records and the log are the same.
\<close>

theorem decodeServiceTimeStrings_header_line:
  assumes "HasSuffix line '':\<newline>''"
  shows "decodeServiceTimeStrings pf line = Inr \<lparr>Key = [], Value = 0\<rparr> \<and>
         serviceTimesLoop pf (before @ [line] @ rest) st = serviceTimesLoop pf (before @ rest) st"
proof -
  have d: "decodeServiceTimeStrings pf line = Inr \<lparr>Key = [], Value = 0\<rparr>"
    using assms by (simp add: decodeServiceTimeStrings_def)
  have one: "serviceTimesLoop pf [line] st' = st'" for st'
    by (cases st') (simp add: d)
  have "serviceTimesLoop pf (before @ [line] @ rest) st
        = serviceTimesLoop pf rest (serviceTimesLoop pf [line] (serviceTimesLoop pf before st))"
    by (simp only: serviceTimesLoop_append)
  then show ?thesis
    using d by (simp add: one serviceTimesLoop_append)
qed

theorem decodeServiceTimeStrings_header_example:
  "HasSuffix ''HTTP Requests (All):\<newline>'' '':\<newline>'' \<and>
   decodeServiceTimeStrings parseDecimal ''HTTP Requests (All):\<newline>''
     = Inr \<lparr>Key = [], Value = 0\<rparr> \<and>
   serviceTimesLoop parseDecimal
       ([''DNS Lookups: 0.0045\<newline>''] @ [''HTTP Requests (All):\<newline>''] @ []) ([], [])
     = ([\<lparr>Key = ''DNS_Lookups'', Value = 45 / 10000\<rparr>], [])"
proof -
  have h: "HasSuffix ''HTTP Requests (All):\<newline>'' '':\<newline>''"
    by (simp add: HasSuffix_def)
  show ?thesis
    using decodeServiceTimeStrings_header_line
      [OF h, of parseDecimal "[''DNS Lookups: 0.0045\<newline>'']" "[]" "([], [])"] h
    by (simp add: decodeServiceTimeStrings_dns)
qed

section \<open>A response that is not 200\<close>

text \<open>
  Claim C7. When the response parses and its status code is not 200, both fetches return
  no records and an error whose message holds the status code in decimal; no line is read
  or decoded, so nothing is logged.
\<close>

theorem fetch_non_success_status:
  assumes "answers net c r" and "StatusCode r \<noteq> 200"
  shows "GetCounters pf net c =
           \<lparr>counters = [],
            failure = Some (''error getting counters: Non success code ''
                            @ showInt (StatusCode r) @ '' while fetching metrics''),
            decodeLogged = [], readLogged = []\<rparr> \<and>
         GetServiceTimes pf net c =
           \<lparr>counters = [],
            failure = Some (''error getting service times: Non success code ''
                            @ showInt (StatusCode r) @ '' while fetching metrics''),
            decodeLogged = [], readLogged = []\<rparr>"
  using assms
  by (simp add: GetCounters_def GetServiceTimes_def readFromSquid_answers)

theorem fetch_status_404:
  "GetCounters parseDecimal (examplePeer 404 ''a = 1\<newline>'' EOF) exampleClient =
     \<lparr>counters = [],
      failure = Some ''error getting counters: Non success code 404 while fetching metrics'',
      decodeLogged = [], readLogged = []\<rparr> \<and>
   GetServiceTimes parseDecimal (examplePeer 404 ''a = 1\<newline>'' EOF) exampleClient =
     \<lparr>counters = [],
      failure = Some ''error getting service times: Non success code 404 while fetching metrics'',
      decodeLogged = [], readLogged = []\<rparr>"
proof -
  let ?r = "\<lparr>StatusCode = 404, Body = \<lparr>pending = ''a = 1\<newline>'', ending = EOF\<rparr>\<rparr>"
  have h1: "answers (examplePeer 404 ''a = 1\<newline>'' EOF) exampleClient ?r"
    by (rule answers_examplePeer)
  have h2: "StatusCode ?r \<noteq> 200"
    by simp
  have s: "showInt 404 = ''404''"
    by code_simp
  show ?thesis
    using fetch_non_success_status [OF h1 h2, of parseDecimal] by (simp add: s)
qed

section \<open>An unterminated last line\<close>

text \<open>
  Claim C9. Every body is a sequence \<open>ls\<close> of newline-terminated lines followed by bytes
  \<open>tail\<close> without a line feed. When the stream ends with end-of-stream, the producer
  delivers exactly \<open>ls\<close>: the bytes of \<open>tail\<close>, which \<open>ReadString\<close> returns together with
  \<open>io.EOF\<close>, are not sent. Both fetches return what their loops make of \<open>ls\<close> alone, so
  \<open>tail\<close> gives no record and no log line.
\<close>

theorem readLines_discards_unterminated_tail:
  assumes "\<forall>l \<in> set ls. newlineTerminated l"
    and "CHR ''\<newline>'' \<notin> set tail"
    and "answers net c r"
    and "StatusCode r = 200"
    and "Body r = \<lparr>pending = concat ls @ tail, ending = EOF\<rparr>"
  shows "fst (readLines (Body r)) = ls \<and>
         GetCounters pf net c =
           \<lparr>counters = fst (countersLoop pf ls ([], [])), failure = None,
            decodeLogged = snd (countersLoop pf ls ([], [])), readLogged = []\<rparr> \<and>
         GetServiceTimes pf net c =
           \<lparr>counters = fst (serviceTimesLoop pf ls ([], [])), failure = None,
            decodeLogged = snd (serviceTimesLoop pf ls ([], [])), readLogged = []\<rparr>"
proof -
  have "readLines (Body r) = (ls, [])"
    using readLines_concat [OF assms(1,2), of EOF] assms(5) by (simp add: producerLog_def)
  then show ?thesis
    using assms(3,4)
    by (simp add: GetCounters_def GetServiceTimes_def readFromSquid_answers Let_def)
qed

text \<open>The body \<open>a = 1\<close>, line feed, \<open>b = 2\<close> without a line feed: one record.\<close>

theorem GetCounters_unterminated_last_line:
  "GetCounters parseDecimal (examplePeer 200 ''a = 1\<newline>b = 2'' EOF) exampleClient =
     \<lparr>counters = [\<lparr>Key = ''a'', Value = 1\<rparr>], failure = None,
      decodeLogged = [], readLogged = []\<rparr>"
proof -
  let ?r = "\<lparr>StatusCode = 200, Body = \<lparr>pending = ''a = 1\<newline>b = 2'', ending = EOF\<rparr>\<rparr>"
  have h1: "\<forall>l \<in> set [''a = 1\<newline>'']. newlineTerminated l"
    by (simp add: newlineTerminated_def)
  have h2: "CHR ''\<newline>'' \<notin> set ''b = 2''"
    by simp
  have h3: "answers (examplePeer 200 ''a = 1\<newline>b = 2'' EOF) exampleClient ?r"
    by (rule answers_examplePeer)
  have h4: "StatusCode ?r = 200"
    by simp
  have h5: "Body ?r = \<lparr>pending = concat [''a = 1\<newline>''] @ ''b = 2'', ending = EOF\<rparr>"
    by simp
  show ?thesis
    using readLines_discards_unterminated_tail [OF h1 h2 h3 h4 h5, of parseDecimal]
    by (simp add: decodeCounterStrings_a)
qed

section \<open>A body that ends with a read error\<close>

text \<open>
  Claim C4, as the code has it. When the body ends with a read error other than
  end-of-stream, both fetches return the records decoded from the lines read before the
  error, and a nil error: the read error is logged by the line producer and is not
  returned to the caller.
\<close>

theorem fetch_read_error_is_only_logged:
  assumes "\<forall>l \<in> set ls. newlineTerminated l"
    and "CHR ''\<newline>'' \<notin> set tail"
    and "answers net c r"
    and "StatusCode r = 200"
    and "Body r = \<lparr>pending = concat ls @ tail, ending = ReadFailure m\<rparr>"
  shows "GetCounters pf net c =
           \<lparr>counters = fst (countersLoop pf ls ([], [])), failure = None,
            decodeLogged = snd (countersLoop pf ls ([], [])),
            readLogged = [''error reading from the bufio.Reader: '' @ m]\<rparr> \<and>
         GetServiceTimes pf net c =
           \<lparr>counters = fst (serviceTimesLoop pf ls ([], [])), failure = None,
            decodeLogged = snd (serviceTimesLoop pf ls ([], [])),
            readLogged = [''error reading from the bufio.Reader: '' @ m]\<rparr>"
proof -
  have "readLines (Body r) = (ls, [''error reading from the bufio.Reader: '' @ m])"
    using readLines_concat [OF assms(1,2), of "ReadFailure m"] assms(5)
    by (simp add: producerLog_def)
  then show ?thesis
    using assms(3,4)
    by (simp add: GetCounters_def GetServiceTimes_def readFromSquid_answers Let_def)
qed

theorem GetServiceTimes_read_error_example:
  "GetServiceTimes parseDecimal
      (examplePeer 200 ''DNS Lookups: 0.0045\<newline>HTTP Req'' (ReadFailure ''unexpected EOF''))
      exampleClient
     = \<lparr>counters = [\<lparr>Key = ''DNS_Lookups'', Value = 45 / 10000\<rparr>], failure = None,
        decodeLogged = [],
        readLogged = [''error reading from the bufio.Reader: unexpected EOF'']\<rparr>"
proof -
  let ?body = "''DNS Lookups: 0.0045\<newline>HTTP Req''"
  let ?r = "\<lparr>StatusCode = 200,
             Body = \<lparr>pending = ?body, ending = ReadFailure ''unexpected EOF''\<rparr>\<rparr>"
  have h1: "\<forall>l \<in> set [''DNS Lookups: 0.0045\<newline>'']. newlineTerminated l"
    by (simp add: newlineTerminated_def)
  have h2: "CHR ''\<newline>'' \<notin> set ''HTTP Req''"
    by simp
  have h3: "answers (examplePeer 200 ?body (ReadFailure ''unexpected EOF'')) exampleClient ?r"
    by (rule answers_examplePeer)
  have h4: "StatusCode ?r = 200"
    by simp
  have h5: "Body ?r = \<lparr>pending = concat [''DNS Lookups: 0.0045\<newline>''] @ ''HTTP Req'',
                         ending = ReadFailure ''unexpected EOF''\<rparr>"
    by simp
  show ?thesis
    using fetch_read_error_is_only_logged [OF h1 h2 h3 h4 h5, of parseDecimal]
    by (simp add: decodeServiceTimeStrings_dns)
qed

text \<open>
  Claim C4 as stated fails: the body \<open>a = 1\<close>, line feed, \<open>b = \<close> ends with a connection
  reset, and \<open>GetCounters\<close> returns the record of the first line with a nil error.
\<close>

theorem GetCounters_read_error_returns_nil_error:
  "GetCounters parseDecimal
      (examplePeer 200 ''a = 1\<newline>b = '' (ReadFailure ''connection reset by peer''))
      exampleClient
     = \<lparr>counters = [\<lparr>Key = ''a'', Value = 1\<rparr>], failure = None, decodeLogged = [],
        readLogged = [''error reading from the bufio.Reader: connection reset by peer'']\<rparr>"
  using answers_examplePeer
    [of 200 "''a = 1\<newline>b = ''" "ReadFailure ''connection reset by peer''"]
  by (simp add: GetCounters_def readFromSquid_answers readLines_example_failure
      decodeCounterStrings_a)

section \<open>Service-time lines with a percentile\<close>

text \<open>
  Claim C1, as the code has it. Take a line that is not a header (it does not end with a
  colon followed by the line feed), whose text before the first \<open>:\<close> trims to a non-empty
  label, and whose trimmed text after that \<open>:\<close> contains a \<open>%\<close> with a non-empty trimmed
  qualifier before the first one. The key is the base key of the label (spaces replaced by
  underscores, parentheses removed), an underscore and the qualifier. The text handed to
  the number parser is the re-trimmed text after the \<open>%\<close> up to its first space character
  (U+0020). The line decodes to the key and the parsed number when the parser accepts that
  text, and fails otherwise. Only the space character delimits the payload.
\<close>

theorem decodeServiceTimeStrings_percent_line:
  assumes "\<not> HasSuffix line '':\<newline>''"
    and "CHR '':'' \<in> set line"
    and "TrimSpace (textBefore line CHR '':'') \<noteq> []"
    and "CHR ''%'' \<in> set (TrimSpace (textAfter line CHR '':''))"
    and "TrimSpace (textBefore (TrimSpace (textAfter line CHR '':'')) CHR ''%'') \<noteq> []"
  shows "(let label = TrimSpace (textBefore line CHR '':'');
              content = TrimSpace (textAfter line CHR '':'');
              qualifier = TrimSpace (textBefore content CHR ''%'');
              payload = textBefore (TrimSpace (textAfter content CHR ''%'')) CHR '' ''
          in decodeServiceTimeStrings pf line =
               (case pf payload of
                  Some v \<Rightarrow> Inr \<lparr>Key = baseKey label @ ''_'' @ qualifier, Value = v\<rparr>
                | None \<Rightarrow> Inl (''service times - could not parse line: '' @ line)))"
  using assms Index_less_length [of line "CHR '':''"]
    Index_less_length [of "TrimSpace (textAfter line CHR '':'')" "CHR ''%''"]
  by (simp add: decodeServiceTimeStrings_def Let_def Index_nonneg take_Index drop_Index
      hd_Split Replace_baseKey split: option.split)

text \<open>The instance of the specification.\<close>

theorem decodeServiceTimeStrings_percentile_example:
  "decodeServiceTimeStrings parseDecimal ''HTTP Requests 5 min avg: 50% 0.0123\<newline>''
     = Inr \<lparr>Key = ''HTTP_Requests_5_min_avg_50'', Value = 123 / 10000\<rparr>"
proof -
  let ?line = "''HTTP Requests 5 min avg: 50% 0.0123\<newline>''"
  have lab: "TrimSpace (textBefore ?line CHR '':'') = ''HTTP Requests 5 min avg''"
    by code_simp
  have con: "TrimSpace (textAfter ?line CHR '':'') = ''50% 0.0123''"
    by code_simp
  have qua: "TrimSpace (textBefore ''50% 0.0123'' CHR ''%'') = ''50''"
    by code_simp
  have pay: "textBefore (TrimSpace (textAfter ''50% 0.0123'' CHR ''%'')) CHR '' '' = ''0.0123''"
    by code_simp
  have key: "baseKey ''HTTP Requests 5 min avg'' = ''HTTP_Requests_5_min_avg''"
    by code_simp
  have num: "parseDecimal ''0.0123'' = Some (123 / 10000)"
    by (simp add: parseDecimal_def isDigit_def digitsValue_def)
  have h1: "\<not> HasSuffix ?line '':\<newline>''"
    by (simp add: HasSuffix_def)
  have h2: "CHR '':'' \<in> set ?line"
    by simp
  have h3: "TrimSpace (textBefore ?line CHR '':'') \<noteq> []"
    by (simp add: lab)
  have h4: "CHR ''%'' \<in> set (TrimSpace (textAfter ?line CHR '':''))"
    by (simp add: con)
  have h5: "TrimSpace (textBefore (TrimSpace (textAfter ?line CHR '':'')) CHR ''%'') \<noteq> []"
    by (simp add: con qua)
  show ?thesis
    using decodeServiceTimeStrings_percent_line [OF h1 h2 h3 h4 h5, of parseDecimal]
    by (simp add: lab con qua pay key num Let_def)
qed

text \<open>
  Claim C1 as stated fails where the payload is followed by a tab: on the line
  \<open>a: 5%<TAB>1<TAB>x\<close> the first white-space-delimited token after the \<open>%\<close> is \<open>1\<close>, a
  number, but the decoder parses \<open>1<TAB>x\<close> and fails.
\<close>

theorem decodeServiceTimeStrings_tab_after_percent:
  "firstField (TrimSpace (textAfter (TrimSpace (textAfter
       (''a: 5%'' @ [CHR 0x09] @ ''1'' @ [CHR 0x09] @ ''x\<newline>'') CHR '':'')) CHR ''%'')) = ''1'' \<and>
   parseDecimal ''1'' = Some 1 \<and>
   decodeServiceTimeStrings parseDecimal (''a: 5%'' @ [CHR 0x09] @ ''1'' @ [CHR 0x09] @ ''x\<newline>'')
     = Inl (''service times - could not parse line: a: 5%'' @ [CHR 0x09] @ ''1''
            @ [CHR 0x09] @ ''x\<newline>'')"
proof -
  have a: "firstField (TrimSpace (textAfter (TrimSpace (textAfter
       (''a: 5%'' @ [CHR 0x09] @ ''1'' @ [CHR 0x09] @ ''x\<newline>'') CHR '':'')) CHR ''%'')) = ''1''"
    by code_simp
  have c: "decodeServiceTimeStrings parseDecimal
       (''a: 5%'' @ [CHR 0x09] @ ''1'' @ [CHR 0x09] @ ''x\<newline>'')
     = Inl (''service times - could not parse line: a: 5%'' @ [CHR 0x09] @ ''1''
            @ [CHR 0x09] @ ''x\<newline>'')"
    by code_simp
  from a parseDecimal_1 c show ?thesis by blast
qed

section \<open>Service-time lines without a percentile\<close>

text \<open>
  Claim C3, as the code has it. For a line that is not a header, with a non-empty trimmed
  label and no \<open>%\<close> in its trimmed value, the text handed to the number parser is the whole
  trimmed value: nothing is cut off. The line decodes to the base key and the parsed
  number when the parser accepts the whole trimmed value, and fails otherwise, so it
  fails when further text follows the number.
\<close>

theorem decodeServiceTimeStrings_plain_line:
  assumes "\<not> HasSuffix line '':\<newline>''"
    and "CHR '':'' \<in> set line"
    and "TrimSpace (textBefore line CHR '':'') \<noteq> []"
    and "CHR ''%'' \<notin> set (TrimSpace (textAfter line CHR '':''))"
  shows "decodeServiceTimeStrings pf line =
           (case pf (TrimSpace (textAfter line CHR '':'')) of
              Some v \<Rightarrow> Inr \<lparr>Key = baseKey (TrimSpace (textBefore line CHR '':'')), Value = v\<rparr>
            | None \<Rightarrow> Inl (''service times - could not parse line: '' @ line))"
  using assms Index_less_length [of line "CHR '':''"]
  by (simp add: decodeServiceTimeStrings_def Let_def Index_nonneg take_Index drop_Index
      Replace_baseKey split: option.split)

theorem decodeServiceTimeStrings_plain_example:
  "CHR ''%'' \<notin> set (TrimSpace (textAfter ''Median Service Time: 12.5\<newline>'' CHR '':'')) \<and>
   decodeServiceTimeStrings parseDecimal ''Median Service Time: 12.5\<newline>''
     = Inr \<lparr>Key = ''Median_Service_Time'', Value = 125 / 10\<rparr>"
proof -
  let ?line = "''Median Service Time: 12.5\<newline>''"
  have lab: "TrimSpace (textBefore ?line CHR '':'') = ''Median Service Time''"
    by code_simp
  have con: "TrimSpace (textAfter ?line CHR '':'') = ''12.5''"
    by code_simp
  have key: "baseKey ''Median Service Time'' = ''Median_Service_Time''"
    by code_simp
  have num: "parseDecimal ''12.5'' = Some (125 / 10)"
    by (simp add: parseDecimal_def isDigit_def digitsValue_def)
  have h1: "\<not> HasSuffix ?line '':\<newline>''"
    by (simp add: HasSuffix_def)
  have h2: "CHR '':'' \<in> set ?line"
    by simp
  have h3: "TrimSpace (textBefore ?line CHR '':'') \<noteq> []"
    by (simp add: lab)
  have h4: "CHR ''%'' \<notin> set (TrimSpace (textAfter ?line CHR '':''))"
    by (simp add: con)
  show ?thesis
    using decodeServiceTimeStrings_plain_line [OF h1 h2 h3 h4, of parseDecimal] h4
    by (simp add: lab con key num)
qed

text \<open>
  Claim C3 as stated fails when text follows the number: the first token of
  \<open>0.0045 seconds\<close> is numeric, and the line fails to decode.
\<close>

theorem decodeServiceTimeStrings_trailing_text_fails:
  "firstField (TrimSpace (textAfter ''DNS Lookups: 0.0045 seconds\<newline>'' CHR '':''))
     = ''0.0045'' \<and>
   parseDecimal ''0.0045'' = Some (45 / 10000) \<and>
   decodeServiceTimeStrings parseDecimal ''DNS Lookups: 0.0045 seconds\<newline>''
     = Inl ''service times - could not parse line: DNS Lookups: 0.0045 seconds\<newline>''"
proof -
  have a: "firstField (TrimSpace (textAfter ''DNS Lookups: 0.0045 seconds\<newline>'' CHR '':''))
            = ''0.0045''"
    by code_simp
  have b: "parseDecimal ''0.0045'' = Some (45 / 10000)"
    by (simp add: parseDecimal_def isDigit_def digitsValue_def)
  have c: "decodeServiceTimeStrings parseDecimal ''DNS Lookups: 0.0045 seconds\<newline>''
     = Inl ''service times - could not parse line: DNS Lookups: 0.0045 seconds\<newline>''"
    by code_simp
  from a b c show ?thesis by blast
qed

section \<open>Facts about the request\<close>

text \<open>
  A format without a percent sign is written as it is, and neither the base64 alphabet
  nor the padding holds a percent sign.
\<close>

lemma Fprintf_verbatim: "CHR ''%'' \<notin> set s \<Longrightarrow> Fprintf s = s"
  by (subst Fprintf.simps) simp

lemma encodeStd_no_percent: "k < 64 \<Longrightarrow> encodeStd ! k \<noteq> CHR ''%''"
proof -
  assume "k < 64"
  moreover have "length encodeStd = 64"
    by (simp add: encodeStd_def)
  ultimately have "encodeStd ! k \<in> set encodeStd"
    by (metis nth_mem)
  moreover have "CHR ''%'' \<notin> set encodeStd"
    by (simp add: encodeStd_def)
  ultimately show ?thesis by metis
qed

lemma sextet_bound:
  "((of_char a :: nat) * 65536 + (of_char b :: nat) * 256 + (of_char c :: nat)) div 262144 < 64"
proof -
  have "(of_char a :: nat) < 256" "(of_char b :: nat) < 256" "(of_char c :: nat) < 256"
    by simp_all
  then show ?thesis by linarith
qed

lemma sextet_bound2:
  "((of_char a :: nat) * 65536 + (of_char b :: nat) * 256) div 262144 < 64"
  using sextet_bound [of a b "CHR 0x00"] by simp

lemma sextet_bound1:
  "((of_char a :: nat) * 65536) div 262144 < 64"
  using sextet_bound2 [of a "CHR 0x00"] by simp

lemma EncodeToString_no_percent: "CHR ''%'' \<notin> set (EncodeToString s)"
proof (induction s rule: EncodeToString.induct)
  case 1
  then show ?case by simp
next
  case (2 a)
  show ?case
    using encodeStd_no_percent [OF sextet_bound1 [of a]]
      encodeStd_no_percent [of "(of_char a :: nat) * 65536 div 4096 mod 64"]
    by (simp add: Let_def del: div_mult_self1 div_mult_self2 div_mult_self3 div_mult_self4)
next
  case (3 a b)
  let ?n = "(of_char a :: nat) * 65536 + (of_char b :: nat) * 256"
  show ?case
    using encodeStd_no_percent [OF sextet_bound2 [of a b]]
      encodeStd_no_percent [of "?n div 4096 mod 64"]
      encodeStd_no_percent [of "?n div 64 mod 64"]
    by (simp add: Let_def)
next
  case (4 a b c rest)
  let ?n = "(of_char a :: nat) * 65536 + (of_char b :: nat) * 256 + (of_char c :: nat)"
  show ?case
    using 4 encodeStd_no_percent [OF sextet_bound [of a b c]]
      encodeStd_no_percent [of "?n div 4096 mod 64"]
      encodeStd_no_percent [of "?n div 64 mod 64"]
      encodeStd_no_percent [of "?n mod 64"]
    by (simp add: Let_def)
qed

lemma EncodeToString_not_Nil: "s \<noteq> [] \<Longrightarrow> EncodeToString s \<noteq> []"
  by (cases s rule: EncodeToString.cases) (simp_all add: Let_def)

lemma get_written:
  assumes "CHR ''%'' \<notin> set path" and "CHR ''%'' \<notin> set auth"
  shows "fst (get c path auth) =
    requestProtocol path @ CRLF @ ''Host: localhost'' @ CRLF
    @ ''User-Agent: squidclient/3.5.12'' @ CRLF
    @ (if auth = [] then [] else ''Proxy-Authorization: Basic '' @ auth @ CRLF)
    @ ''Accept: */*'' @ CRLF @ CRLF"
  using assms
  by (simp add: get_def Let_def Fprintf_verbatim requestProtocol_def CRLF_def)

lemma endpoint_no_percent:
  "endpoint \<in> {''counters'', ''service_times''} \<Longrightarrow> CHR ''%'' \<notin> set endpoint"
  by auto

lemmas directive_defs = directive_def widthStep_def precisionStep_def indexStep_def
  verbStep_def argNumber_def parsenum_def isFlag_def isDigit_def decodeVerb_def runeWidth_def

section \<open>The request bytes\<close>

text \<open>
  Claim C8. For every endpoint name the client requests (\<open>counters\<close> and
  \<open>service_times\<close>) and every configured token (what \<open>buildBasicAuthString\<close> returns for
  a login and a password), the bytes \<open>get\<close> writes to the connection are exactly the
  CRLF-joined sequence of the request line
  \<open>GET cache_object://localhost/<endpoint> HTTP/1.0\<close>, \<open>Host: localhost\<close>, the fixed
  \<open>User-Agent\<close> header, the header \<open>Proxy-Authorization: Basic <token>\<close> exactly when the
  token is not empty, \<open>Accept: */*\<close> and the blank line that ends the request, in that
  order.
\<close>

theorem get_request_of_client:
  assumes "endpoint \<in> {''counters'', ''service_times''}"
  shows "fst (get c endpoint (buildBasicAuthString login password)) =
    Join ([''GET cache_object://localhost/'' @ endpoint @ '' HTTP/1.0'', ''Host: localhost'',
           ''User-Agent: squidclient/3.5.12'']
          @ (if buildBasicAuthString login password = [] then []
             else [''Proxy-Authorization: Basic '' @ buildBasicAuthString login password])
          @ [''Accept: */*'', CRLF]) CRLF"
proof -
  have e: "CHR ''%'' \<notin> set endpoint"
    using assms by (rule endpoint_no_percent)
  have t: "CHR ''%'' \<notin> set (buildBasicAuthString login password)"
    by (simp add: buildBasicAuthString_def EncodeToString_no_percent)
  show ?thesis
    unfolding get_written [OF e t]
    by (simp add: requestProtocol_def)
qed

text \<open>
  The request for \<open>service_times\<close> with the login \<open>user\<close> and the password \<open>pass\<close>, and
  the request for \<open>counters\<close> without a login.
\<close>

theorem get_request_of_client_example:
  "fst (get (Inl ''EOF'') ''service_times'' (buildBasicAuthString ''user'' ''pass'')) =
     ''GET cache_object://localhost/service_times HTTP/1.0'' @ CRLF
     @ ''Host: localhost'' @ CRLF @ ''User-Agent: squidclient/3.5.12'' @ CRLF
     @ ''Proxy-Authorization: Basic dXNlcjpwYXNz'' @ CRLF
     @ ''Accept: */*'' @ CRLF @ CRLF \<and>
   fst (get (Inl ''EOF'') ''counters'' (buildBasicAuthString [] ''secret'')) =
     ''GET cache_object://localhost/counters HTTP/1.0'' @ CRLF
     @ ''Host: localhost'' @ CRLF @ ''User-Agent: squidclient/3.5.12'' @ CRLF
     @ ''Accept: */*'' @ CRLF @ CRLF"
proof -
  have h1: "''service_times'' \<in> {''counters'', ''service_times''}"
    by simp
  have h2: "''counters'' \<in> {''counters'', ''service_times''}"
    by simp
  show ?thesis
    using get_request_of_client [OF h1, of "Inl ''EOF''" "''user''" "''pass''"]
      get_request_of_client [OF h2, of "Inl ''EOF''" "[]" "''secret''"]
    by (simp add: buildBasicAuthString_def Let_def encodeStd_def)
qed

text \<open>
  The theorem is about the endpoint names the client passes. \<open>get\<close> hands the request it
  built to \<open>fmt.Fprintf\<close> as the format string, so the request is written as built because
  neither of the two names, nor a base64 token, holds a percent sign. A name with a
  percent sign, which no caller of \<open>get\<close> passes, would be read as a directive: for
  \<open>a%20b\<close> the request line written would ask for \<open>a%!b(MISSING)\<close>.
\<close>

lemma get_format_string_endpoint:
  "fst (get c ''a%20b'' []) =
     ''GET cache_object://localhost/a%!b(MISSING) HTTP/1.0'' @ CRLF
     @ ''Host: localhost'' @ CRLF @ ''User-Agent: squidclient/3.5.12'' @ CRLF
     @ ''Accept: */*'' @ CRLF @ CRLF"
  unfolding get_def Let_def requestProtocol_def CRLF_def
  by (simp, subst Fprintf.simps) (simp add: directive_defs Let_def Fprintf_verbatim)

section \<open>The stored token and the authorization header\<close>

text \<open>
  Claim C10. With an empty login the stored token is empty, whatever the password, and
  the request of either fetch has no \<open>Proxy-Authorization\<close> header. With a non-empty login
  the stored token is the standard base64 encoding of the login, a colon and the
  password, and the request carries it in the header
  \<open>Proxy-Authorization: Basic <token>\<close>, between \<open>User-Agent\<close> and \<open>Accept\<close>.
\<close>

theorem NewCacheObjectClient_authorization_header:
  assumes "endpoint \<in> {''counters'', ''service_times''}"
  shows "(login = [] \<longrightarrow>
            basicAuthString (NewCacheObjectClient host portNo login password withProxy) = [] \<and>
            fst (get c endpoint
                  (basicAuthString (NewCacheObjectClient host portNo login password withProxy)))
              = requestProtocol endpoint @ CRLF @ ''Host: localhost'' @ CRLF
                @ ''User-Agent: squidclient/3.5.12'' @ CRLF @ ''Accept: */*'' @ CRLF @ CRLF) \<and>
         (login \<noteq> [] \<longrightarrow>
            basicAuthString (NewCacheObjectClient host portNo login password withProxy)
              = EncodeToString (login @ '':'' @ password) \<and>
            fst (get c endpoint
                  (basicAuthString (NewCacheObjectClient host portNo login password withProxy)))
              = requestProtocol endpoint @ CRLF @ ''Host: localhost'' @ CRLF
                @ ''User-Agent: squidclient/3.5.12'' @ CRLF
                @ ''Proxy-Authorization: Basic '' @ EncodeToString (login @ '':'' @ password)
                @ CRLF @ ''Accept: */*'' @ CRLF @ CRLF)"
proof (cases "login = []")
  case True
  then show ?thesis
    using endpoint_no_percent [OF assms]
    by (simp add: NewCacheObjectClient_def buildBasicAuthString_def get_written)
next
  case False
  then have ne: "EncodeToString (login @ '':'' @ password) \<noteq> []"
    by (simp add: EncodeToString_not_Nil)
  show ?thesis
    using False endpoint_no_percent [OF assms] ne
    by (simp add: NewCacheObjectClient_def buildBasicAuthString_def get_written
        EncodeToString_no_percent)
qed

theorem NewCacheObjectClient_authorization_example:
  "basicAuthString (NewCacheObjectClient ''localhost'' 3128 [] ''secret'' False) = [] \<and>
   fst (get (Inl ''EOF'') ''counters''
         (basicAuthString (NewCacheObjectClient ''localhost'' 3128 [] ''secret'' False)))
     = ''GET cache_object://localhost/counters HTTP/1.0'' @ CRLF @ ''Host: localhost'' @ CRLF
       @ ''User-Agent: squidclient/3.5.12'' @ CRLF @ ''Accept: */*'' @ CRLF @ CRLF \<and>
   basicAuthString (NewCacheObjectClient ''localhost'' 3128 ''user'' ''pass'' False)
     = ''dXNlcjpwYXNz'' \<and>
   fst (get (Inl ''EOF'') ''counters''
         (basicAuthString (NewCacheObjectClient ''localhost'' 3128 ''user'' ''pass'' False)))
     = ''GET cache_object://localhost/counters HTTP/1.0'' @ CRLF @ ''Host: localhost'' @ CRLF
       @ ''User-Agent: squidclient/3.5.12'' @ CRLF
       @ ''Proxy-Authorization: Basic '' @ ''dXNlcjpwYXNz''
       @ CRLF @ ''Accept: */*'' @ CRLF @ CRLF"
proof -
  have h: "''counters'' \<in> {''counters'', ''service_times''}"
    by simp
  have b: "EncodeToString (''user'' @ '':'' @ ''pass'') = ''dXNlcjpwYXNz''"
    by (simp add: Let_def encodeStd_def)
  have r: "requestProtocol ''counters'' = ''GET cache_object://localhost/counters HTTP/1.0''"
    by (simp add: requestProtocol_def)
  have u: "''user'' \<noteq> []"
    by simp
  note anonymous = NewCacheObjectClient_authorization_header [OF h, of "[]" "''localhost''" 3128 "''secret''" False "Inl ''EOF''"]
  note named = NewCacheObjectClient_authorization_header [OF h, of "''user''" "''localhost''" 3128 "''pass''" False "Inl ''EOF''"]
  from anonymous [unfolded r] named [unfolded b r] u show ?thesis
    by blast
qed

end
